theory Spec2Isabelle
  imports Complex_Main "HOL-Library.AList"
begin

section \<open>Rotary-encoder blocks: schemas and Python emitters of definition.js\<close>

text \<open>
  The file \<^verbatim>\<open>definition.js\<close> sets out to register five block kinds with the Blockly
  editor (\<^verbatim>\<open>Blockly.Blocks[...]\<close>) and five matching emitters with its Python generator
  (\<^verbatim>\<open>Blockly.Python[...]\<close>), and to reserve one word. As the file stands, every schema
  holds one call whose argument is not a JavaScript expression, so the file is refused
  when it is read; the emitter functions themselves are well formed.

  Strings are byte lists: the UTF-8 bytes of the text as it stands in the source file.
  The Vietnamese labels are therefore written with \<open>CHR 0x..\<close> for every byte above
  ASCII; all emitted Python text is plain ASCII.
\<close>

abbreviation newline :: char where
  "newline \<equiv> CHR 0x0A"

text \<open>
  JavaScript's \<^verbatim>\<open>'text' + x\<close> converts \<open>x\<close> to a string first; \<^verbatim>\<open>null\<close> (what
  \<^verbatim>\<open>getFieldValue\<close> answers for a field the block does not have) becomes the four
  characters \<^verbatim>\<open>null\<close>.
\<close>

definition js_string :: "string option \<Rightarrow> string" where
  "js_string v = (case v of None \<Rightarrow> ''null'' | Some s \<Rightarrow> s)"


subsection \<open>Block objects of the host editor\<close>

text \<open>
  A connection check is \<^verbatim>\<open>null\<close> (anything connects) or a type name such as
  \<^verbatim>\<open>"Number"\<close>.
\<close>

type_synonym check = "string option"

text \<open>
  A field of an input row: a text label (\<^verbatim>\<open>appendField("...")\<close> with a plain string),
  or a dropdown with its ordered menu of (display label, encoded value) pairs and the
  encoded value currently selected.
\<close>

datatype field =
    Label string
  | Dropdown "(string \<times> string) list" string

text \<open>
  \<^verbatim>\<open>new Blockly.FieldDropdown(menu)\<close>: a new dropdown shows its first option.
  The source never passes an empty menu; for one the selection is the empty string here.
\<close>

definition FieldDropdown :: "(string \<times> string) list \<Rightarrow> field" where
  "FieldDropdown menu = Dropdown menu (case menu of [] \<Rightarrow> [] | opt # _ \<Rightarrow> snd opt)"

definition getValue :: "field \<Rightarrow> string" where
  "getValue fld = (case fld of Label t \<Rightarrow> t | Dropdown menu sel \<Rightarrow> sel)"

text \<open>
  \<^verbatim>\<open>field.setValue(v)\<close>: a dropdown accepts only the encoded value of one of its
  options and otherwise keeps its selection.
\<close>

definition setValue :: "string \<Rightarrow> field \<Rightarrow> field" where
  "setValue newValue fld =
     (case fld of
        Label t \<Rightarrow> Label newValue
      | Dropdown menu sel \<Rightarrow>
          if newValue \<in> set (map snd menu) then Dropdown menu newValue else fld)"

datatype input_type = DUMMY_INPUT | INPUT_VALUE

text \<open>
  An input row of a block. \<open>fieldRow\<close> pairs each field with the name it was appended
  under (\<open>None\<close> for an unnamed label). \<open>connection\<close> is what is plugged into a value
  input, recorded as the pair \<^verbatim>\<open>[code, order]\<close> that the generator obtained from the
  connected child block, or \<open>None\<close> when nothing is connected.
\<close>

record input =
  input_kind :: input_type
  input_name :: string
  input_check :: check
  fieldRow :: "(string option \<times> field) list"
  connection :: "(string \<times> rat) option"

record block =
  block_type :: string
  inputList :: "input list"
  previousConnection :: "check option"
  nextConnection :: "check option"
  outputConnection :: "check option"
  colour :: string
  tooltip :: string
  helpUrl :: string

definition empty_block :: "string \<Rightarrow> block" where
  "empty_block t =
     \<lparr>block_type = t, inputList = [], previousConnection = None, nextConnection = None,
      outputConnection = None, colour = [], tooltip = [], helpUrl = []\<rparr>"

definition new_input :: "input_type \<Rightarrow> string \<Rightarrow> input" where
  "new_input k n =
     \<lparr>input_kind = k, input_name = n, input_check = None, fieldRow = [], connection = None\<rparr>"

text \<open>
  The source builds each input by a chain of calls on the object that
  \<^verbatim>\<open>appendDummyInput\<close> or \<^verbatim>\<open>appendValueInput\<close> returned, which is the input just put
  at the end of the block's \<open>inputList\<close>. The chained calls \<^verbatim>\<open>setCheck\<close> and
  \<^verbatim>\<open>appendField\<close> are therefore modelled as updates of the last input of the block.
\<close>

fun on_last :: "('a \<Rightarrow> 'a) \<Rightarrow> 'a list \<Rightarrow> 'a list" where
  "on_last f [] = []"
| "on_last f [x] = [f x]"
| "on_last f (x # y # ys) = x # on_last f (y # ys)"

definition appendDummyInput :: "block \<Rightarrow> block" where
  "appendDummyInput this = this\<lparr>inputList := inputList this @ [new_input DUMMY_INPUT []]\<rparr>"

definition appendValueInput :: "string \<Rightarrow> block \<Rightarrow> block" where
  "appendValueInput n this = this\<lparr>inputList := inputList this @ [new_input INPUT_VALUE n]\<rparr>"

definition setCheck :: "check \<Rightarrow> block \<Rightarrow> block" where
  "setCheck c this = this\<lparr>inputList := on_last (\<lambda>i. i\<lparr>input_check := c\<rparr>) (inputList this)\<rparr>"

definition appendField :: "field \<Rightarrow> string option \<Rightarrow> block \<Rightarrow> block" where
  "appendField fld n this =
     this\<lparr>inputList := on_last (\<lambda>i. i\<lparr>fieldRow := fieldRow i @ [(n, fld)]\<rparr>) (inputList this)\<rparr>"

definition setPreviousStatement :: "bool \<Rightarrow> check \<Rightarrow> block \<Rightarrow> block" where
  "setPreviousStatement b c this = this\<lparr>previousConnection := (if b then Some c else None)\<rparr>"

definition setNextStatement :: "bool \<Rightarrow> check \<Rightarrow> block \<Rightarrow> block" where
  "setNextStatement b c this = this\<lparr>nextConnection := (if b then Some c else None)\<rparr>"

definition setOutput :: "bool \<Rightarrow> check \<Rightarrow> block \<Rightarrow> block" where
  "setOutput b c this = this\<lparr>outputConnection := (if b then Some c else None)\<rparr>"

text \<open>
  What stands between the parentheses of a \<^verbatim>\<open>setColour\<close> call: a quoted string such
  as \<^verbatim>\<open>"#A39400"\<close>, or a bare token that starts with \<^verbatim>\<open>#\<close>. JavaScript reads the
  latter as a private name, which is no expression: a function that holds it is a
  syntax error.
\<close>

datatype error = SyntaxError

datatype js_argument =
    StringLiteral string
  | PrivateName string

definition is_expression :: "js_argument \<Rightarrow> bool" where
  "is_expression a = (case a of StringLiteral c \<Rightarrow> True | PrivateName n \<Rightarrow> False)"

definition setColour :: "js_argument \<Rightarrow> block \<Rightarrow> error + block" where
  "setColour a this =
     (case a of
        StringLiteral c \<Rightarrow> Inr (this\<lparr>colour := c\<rparr>)
      | PrivateName n \<Rightarrow> Inl SyntaxError)"

definition setTooltip :: "string \<Rightarrow> block \<Rightarrow> block" where
  "setTooltip t this = this\<lparr>tooltip := t\<rparr>"

definition setHelpUrl :: "string \<Rightarrow> block \<Rightarrow> block" where
  "setHelpUrl u this = this\<lparr>helpUrl := u\<rparr>"

text \<open>
  \<^verbatim>\<open>block.getField(name)\<close> walks the inputs in order and each row in order and
  answers the first field appended under that name; \<^verbatim>\<open>block.getFieldValue(name)\<close>
  answers its value, or \<^verbatim>\<open>null\<close> when there is no such field.
\<close>

fun named_fields :: "(string option \<times> field) list \<Rightarrow> (string \<times> field) list" where
  "named_fields [] = []"
| "named_fields ((None, fld) # row) = named_fields row"
| "named_fields ((Some n, fld) # row) = (n, fld) # named_fields row"

definition getField :: "block \<Rightarrow> string \<Rightarrow> field option" where
  "getField this n = map_of (concat (map (\<lambda>i. named_fields (fieldRow i)) (inputList this))) n"

definition getFieldValue :: "block \<Rightarrow> string \<Rightarrow> string option" where
  "getFieldValue this n = (case getField this n of None \<Rightarrow> None | Some fld \<Rightarrow> Some (getValue fld))"

text \<open>
  \<^verbatim>\<open>block.setFieldValue(newValue, name)\<close>, the user's selection in a dropdown. Field
  names are unique within each block of this file, so updating every field of that name
  updates the one \<open>getField\<close> finds.
\<close>

definition setFieldValue :: "string \<Rightarrow> string \<Rightarrow> block \<Rightarrow> block" where
  "setFieldValue newValue n this =
     this\<lparr>inputList :=
       map (\<lambda>i. i\<lparr>fieldRow :=
              map (\<lambda>nf. if fst nf = Some n then (fst nf, setValue newValue (snd nf)) else nf)
                (fieldRow i)\<rparr>)
         (inputList this)\<rparr>"

text \<open>Plugging a child whose generated pair is \<open>tuple\<close> into the value input \<open>n\<close>.\<close>

definition connect :: "string \<Rightarrow> (string \<times> rat) \<Rightarrow> block \<Rightarrow> block" where
  "connect n tuple this =
     this\<lparr>inputList :=
       map (\<lambda>i. if input_kind i = INPUT_VALUE \<and> input_name i = n
                 then i\<lparr>connection := Some tuple\<rparr> else i)
         (inputList this)\<rparr>"

definition getInputTarget :: "block \<Rightarrow> string \<Rightarrow> (string \<times> rat) option" where
  "getInputTarget this n =
     (case filter (\<lambda>i. input_name i = n) (inputList this) of
        [] \<Rightarrow> None
      | i # _ \<Rightarrow> connection i)"


subsection \<open>The block schemas (lines 1 to 68)\<close>

text \<open>
  Lines 10, 21, 38, 51 and 64 all read \<^verbatim>\<open>this.setColour(#A39400);\<close>: the colour stands
  there as a bare token, without quotes. Each \<^verbatim>\<open>init\<close> below is the body as written,
  statement by statement; it stops with the syntax error at that call and returns no
  block.
\<close>

definition colour_token :: js_argument where
  "colour_token = PrivateName ''A39400''"

definition pin_menu :: "(string \<times> string) list" where
  "pin_menu =
     [(''P0'', ''pin0.pin''), (''P1'', ''pin1.pin''), (''P2'', ''pin2.pin''),
      (''P3'', ''pin3.pin''), (''P4'', ''pin4.pin''), (''P6'', ''pin6.pin''),
      (''P7'', ''pin7.pin''), (''P8'', ''pin8.pin''), (''P9'', ''pin9.pin''),
      (''P10'', ''pin10.pin''), (''P11'', ''pin11.pin''), (''P12'', ''pin12.pin''),
      (''P13'', ''pin13.pin''), (''P14'', ''pin14.pin''), (''P15'', ''pin15.pin''),
      (''P16'', ''pin16.pin'')]"

definition initialise_rotary_encoder_init :: "block \<Rightarrow> error + block" where
  "initialise_rotary_encoder_init this =
     (let this = appendDummyInput this;
          this = appendField
                   (Label (''kh'' @ [CHR 0xE1, CHR 0xBB, CHR 0x9F] @ ''i t''
                           @ [CHR 0xE1, CHR 0xBA, CHR 0xA1] @ ''o encoder CLK'')) None this;
          this = appendField (FieldDropdown pin_menu) (Some ''clk'') this;
          this = appendField (Label ''DT'') None this;
          this = appendField (FieldDropdown pin_menu) (Some ''dt'') this;
          this = setPreviousStatement True None this;
          this = setNextStatement True None this
      in case setColour colour_token this of
           Inl e \<Rightarrow> Inl e
         | Inr this \<Rightarrow>
             (let this = setTooltip [] this;
                  this = setHelpUrl [] this
              in Inr this))"

definition get_value_init :: "block \<Rightarrow> error + block" where
  "get_value_init this =
     (let this = appendDummyInput this;
          this = appendField
                   (Label ([CHR 0xC4, CHR 0x91, CHR 0xE1, CHR 0xBB, CHR 0x8D] @ ''c gi''
                           @ [CHR 0xC3, CHR 0xA1] @ '' tr'' @ [CHR 0xE1, CHR 0xBB, CHR 0x8B]
                           @ '' encoder'')) None this;
          this = setOutput True (Some ''Number'') this
      in case setColour colour_token this of
           Inl e \<Rightarrow> Inl e
         | Inr this \<Rightarrow>
             (let this = setTooltip [] this;
                  this = setHelpUrl [] this
              in Inr this))"

definition set_range_value_init :: "block \<Rightarrow> error + block" where
  "set_range_value_init this =
     (let this = appendValueInput ''min'' this;
          this = setCheck None this;
          this = appendField
                   (Label ([CHR 0xC4, CHR 0x91, CHR 0xE1, CHR 0xBA, CHR 0xB7] @ ''t kho''
                           @ [CHR 0xE1, CHR 0xBA, CHR 0xA3] @ ''ng gi'' @ [CHR 0xC3, CHR 0xA1]
                           @ '' tr'' @ [CHR 0xE1, CHR 0xBB, CHR 0x8B]
                           @ '' cho encoder min'')) None this;
          this = appendDummyInput this;
          this = appendValueInput ''max'' this;
          this = setCheck None this;
          this = appendField (Label ''max'') None this;
          this = setPreviousStatement True None this;
          this = setNextStatement True None this
      in case setColour colour_token this of
           Inl e \<Rightarrow> Inl e
         | Inr this \<Rightarrow>
             (let this = setTooltip [] this;
                  this = setHelpUrl [] this
              in Inr this))"

definition mode_menu :: "(string \<times> string) list" where
  "mode_menu =
     [(''kh'' @ [CHR 0xC3, CHR 0xB4] @ ''ng gi'' @ [CHR 0xE1, CHR 0xBB, CHR 0x9B] @ ''i h''
         @ [CHR 0xE1, CHR 0xBA, CHR 0xA1] @ ''n'',
       '' RotaryIRQ.RANGE_UNBOUNDED''),
      (''reset khi quay t'' @ [CHR 0xE1, CHR 0xBB, CHR 0x9B] @ ''i max'',
       ''RotaryIRQ.RANGE_WRAP''),
      (''d'' @ [CHR 0xE1, CHR 0xBB, CHR 0xAB] @ ''ng t'' @ [CHR 0xC4, CHR 0x83]
         @ ''ng khi quay t'' @ [CHR 0xE1, CHR 0xBB, CHR 0x9B] @ ''i max'',
       ''RotaryIRQ.RANGE_BOUNDED'')]"

definition rotary_mode_init :: "block \<Rightarrow> error + block" where
  "rotary_mode_init this =
     (let this = appendDummyInput this;
          this = appendField
                   (Label ([CHR 0xC4, CHR 0x91, CHR 0xE1, CHR 0xBA, CHR 0xB7] @ ''t ch''
                           @ [CHR 0xE1, CHR 0xBA, CHR 0xBF] @ '' ''
                           @ [CHR 0xC4, CHR 0x91, CHR 0xE1, CHR 0xBB, CHR 0x99]
                           @ '' xoay cho rotary'')) None this;
          this = appendField (FieldDropdown mode_menu) (Some ''mode'') this;
          this = setPreviousStatement True None this;
          this = setNextStatement True None this
      in case setColour colour_token this of
           Inl e \<Rightarrow> Inl e
         | Inr this \<Rightarrow>
             (let this = setTooltip [] this;
                  this = setHelpUrl [] this
              in Inr this))"

definition set_current_value_init :: "block \<Rightarrow> error + block" where
  "set_current_value_init this =
     (let this = appendValueInput ''value'' this;
          this = setCheck None this;
          this = appendField
                   (Label ([CHR 0xC4, CHR 0x91, CHR 0xE1, CHR 0xBA, CHR 0xB7] @ ''t gi''
                           @ [CHR 0xC3, CHR 0xA1] @ '' tr'' @ [CHR 0xE1, CHR 0xBB, CHR 0x8B]
                           @ '' hi'' @ [CHR 0xE1, CHR 0xBB, CHR 0x87] @ ''n t''
                           @ [CHR 0xE1, CHR 0xBA, CHR 0xA1] @ ''i cho encoder'')) None this;
          this = setPreviousStatement True None this;
          this = setNextStatement True None this
      in case setColour colour_token this of
           Inl e \<Rightarrow> Inl e
         | Inr this \<Rightarrow>
             (let this = setTooltip [] this;
                  this = setHelpUrl [] this
              in Inr this))"


subsection \<open>The Python generator of the host\<close>

text \<open>
  \<^verbatim>\<open>Blockly.Python\<close> is the host's generator object. The emitters read two of its
  order constants, call its \<^verbatim>\<open>valueToCode\<close>, and one of them writes its dictionary
  \<^verbatim>\<open>definitions_\<close>. None of that is defined in this repository, so the constants and
  \<^verbatim>\<open>valueToCode\<close> are fields of a record that every emitter takes as its first
  argument, and what is proved of the emitters holds for every generator. (A field name
  cannot end in an underscore, so the last field drops its.) Order numbers are
  JavaScript numbers; the Python generator uses fractions such as 2.1, hence \<open>rat\<close>.

  \<open>definitions\<close> is a JavaScript object used as a dictionary: an association list in
  insertion order, where assigning to a key that is present replaces its value in place
  (\<open>AList.update\<close>).
\<close>

record generator =
  ORDER_ATOMIC :: rat
  ORDER_NONE :: rat
  valueToCode :: "block \<Rightarrow> string \<Rightarrow> rat \<Rightarrow> string"
  definitions :: "(string \<times> string) list"

text \<open>
  An emitter returns a string (a statement) or the array \<^verbatim>\<open>[code, order]\<close> (an
  expression with its order tag).
\<close>

datatype fragment =
    Statement string
  | Expression string rat


subsection \<open>The emitters (lines 72 to 107)\<close>

definition initialise_rotary_encoder :: "generator \<Rightarrow> block \<Rightarrow> fragment \<times> generator" where
  "initialise_rotary_encoder Python block =
     (let Python = Python\<lparr>definitions :=
                     AList.update ''import_rotary'' ''from rotary import RotaryIRQ''
                       (definitions Python)\<rparr>;
          dropdown_clk = getFieldValue block ''clk'';
          dropdown_dt = getFieldValue block ''dt'';
          code = ''rotary_encoder = RotaryIRQ(pin_num_clk='' @ js_string dropdown_clk
                 @ '', pin_num_dt='' @ js_string dropdown_dt
                 @ '', min_val=0, max_val=10, reverse=True, range_mode=RotaryIRQ.RANGE_UNBOUNDED, pull_up=False)''
                 @ [newline]
      in (Statement code, Python))"

definition get_value :: "generator \<Rightarrow> block \<Rightarrow> fragment \<times> generator" where
  "get_value Python block =
     (let code = ''rotary_encoder.value()''
      in (Expression code (ORDER_NONE Python), Python))"

definition set_range_value :: "generator \<Rightarrow> block \<Rightarrow> fragment \<times> generator" where
  "set_range_value Python block =
     (let value_min = valueToCode Python block ''min'' (ORDER_ATOMIC Python);
          value_max = valueToCode Python block ''max'' (ORDER_ATOMIC Python);
          code = ''rotary_encoder.set(min_val='' @ value_min @ '', max_val='' @ value_max
                 @ '', range_mode=RotaryIRQ.RANGE_WRAP)'' @ [newline]
      in (Statement code, Python))"

definition rotary_mode :: "generator \<Rightarrow> block \<Rightarrow> fragment \<times> generator" where
  "rotary_mode Python block =
     (let dropdown_mode = getFieldValue block ''mode'';
          code = ''rotary_encoder.set(range_mode='' @ js_string dropdown_mode @ '')'' @ [newline]
      in (Statement code, Python))"

definition set_current_value :: "generator \<Rightarrow> block \<Rightarrow> fragment \<times> generator" where
  "set_current_value Python block =
     (let value_value = valueToCode Python block ''value'' (ORDER_ATOMIC Python);
          code = ''rotary_encoder.set(value='' @ value_value @ '')'' @ [newline]
      in (Statement code, Python))"





subsection \<open>Blockly's own generator, for concrete runs\<close>

text \<open>
  The rule by which Blockly's \<^verbatim>\<open>valueToCode(block, name, outerOrder)\<close> inlines the
  child connected to a value input: nothing connected, or empty code, gives the empty
  string; otherwise the child's code is wrapped in parentheses when the floor of the
  outer order is at most the floor of the child's order, except when both are 0 or both
  are 99. Blockly's further exceptions (\<^verbatim>\<open>ORDER_OVERRIDES\<close>) apply only to outer orders
  of member access, calls and the logical operators, which this file never requests, and
  are left out. In Blockly's Python generator \<^verbatim>\<open>ORDER_ATOMIC\<close> is 0 and
  \<^verbatim>\<open>ORDER_NONE\<close> is 99. When a pass reaches its first block, Blockly's \<^verbatim>\<open>init\<close> has
  already stored the entry \<^verbatim>\<open>variables\<close> in \<^verbatim>\<open>definitions_\<close> (the declarations of the
  program's variables; the empty text for a program without variables).
\<close>

definition Blockly_valueToCode :: "block \<Rightarrow> string \<Rightarrow> rat \<Rightarrow> string" where
  "Blockly_valueToCode block n outerOrder =
     (case getInputTarget block n of
        None \<Rightarrow> []
      | Some (code, innerOrder) \<Rightarrow>
          if code = [] then []
          else
            let outerOrderClass = \<lfloor>outerOrder\<rfloor>;
                innerOrderClass = \<lfloor>innerOrder\<rfloor>;
                parensNeeded =
                  (if outerOrderClass \<le> innerOrderClass
                   then (if outerOrderClass = innerOrderClass
                            \<and> (outerOrderClass = 0 \<or> outerOrderClass = 99)
                         then False else True)
                   else False)
            in if parensNeeded then ''('' @ code @ '')'' else code)"

definition Blockly_Python :: generator where
  "Blockly_Python =
     \<lparr>ORDER_ATOMIC = 0, ORDER_NONE = 99, valueToCode = Blockly_valueToCode,
      definitions = [(''variables'', [])]\<rparr>"


subsection \<open>Loading the file\<close>

text \<open>
  The part of the global \<^verbatim>\<open>Blockly\<close> object that the top-level statements of the file
  write: the registry \<^verbatim>\<open>Blockly.Blocks\<close> of \<^verbatim>\<open>init\<close> functions, the emitters stored
  on \<^verbatim>\<open>Blockly.Python\<close> by block type, and the generator's \<^verbatim>\<open>RESERVED_WORDS_\<close>, a
  text in which every word is followed by a comma.
\<close>

record blockly =
  Blocks :: "(string \<times> (block \<Rightarrow> error + block)) list"
  Python_functions :: "(string \<times> (generator \<Rightarrow> block \<Rightarrow> fragment \<times> generator)) list"
  RESERVED_WORDS :: string

text \<open>
  \<^verbatim>\<open>addReservedWords(words)\<close> of the host: \<^verbatim>\<open>this.RESERVED_WORDS_ += words + ','\<close>.
\<close>

definition addReservedWords :: "string \<Rightarrow> blockly \<Rightarrow> blockly" where
  "addReservedWords ws Blockly = Blockly\<lparr>RESERVED_WORDS := RESERVED_WORDS Blockly @ ws @ '',''\<rparr>"

text \<open>
  Loading \<^verbatim>\<open>definition.js\<close>. JavaScript reads the whole file before it runs any of it,
  and refuses the file when a function in it is not well formed: then none of its
  statements takes effect. The colour argument of the five \<^verbatim>\<open>init\<close> functions decides
  that. Were it an expression, the statements would run in the order of the file: the
  five assignments to \<^verbatim>\<open>Blockly.Blocks\<close> (lines 1 to 68), the reservation of line 70,
  and the five assignments to \<^verbatim>\<open>Blockly.Python\<close> (lines 72 to 107).
\<close>

definition definition_js :: "blockly \<Rightarrow> error + blockly" where
  "definition_js Blockly =
     (if is_expression colour_token
      then
        (let Blockly = Blockly\<lparr>Blocks :=
               AList.update ''initialise_rotary_encoder'' initialise_rotary_encoder_init
                 (Blocks Blockly)\<rparr>;
             Blockly = Blockly\<lparr>Blocks :=
               AList.update ''get_value'' get_value_init (Blocks Blockly)\<rparr>;
             Blockly = Blockly\<lparr>Blocks :=
               AList.update ''set_range_value'' set_range_value_init (Blocks Blockly)\<rparr>;
             Blockly = Blockly\<lparr>Blocks :=
               AList.update ''rotary_mode'' rotary_mode_init (Blocks Blockly)\<rparr>;
             Blockly = Blockly\<lparr>Blocks :=
               AList.update ''set_current_value'' set_current_value_init (Blocks Blockly)\<rparr>;
             Blockly = addReservedWords ''rotary'' Blockly;
             Blockly = Blockly\<lparr>Python_functions :=
               AList.update ''initialise_rotary_encoder'' initialise_rotary_encoder
                 (Python_functions Blockly)\<rparr>;
             Blockly = Blockly\<lparr>Python_functions :=
               AList.update ''get_value'' get_value (Python_functions Blockly)\<rparr>;
             Blockly = Blockly\<lparr>Python_functions :=
               AList.update ''set_range_value'' set_range_value (Python_functions Blockly)\<rparr>;
             Blockly = Blockly\<lparr>Python_functions :=
               AList.update ''rotary_mode'' rotary_mode (Python_functions Blockly)\<rparr>;
             Blockly = Blockly\<lparr>Python_functions :=
               AList.update ''set_current_value'' set_current_value (Python_functions Blockly)\<rparr>
         in Inr Blockly)
      else Inl SyntaxError)"


subsection \<open>Blocks for concrete runs\<close>

text \<open>
  The emitters read nothing of a block but the values of its named fields and the code
  of its value inputs. For concrete runs: a block with the two pin dropdowns \<open>clk\<close>
  and \<open>dt\<close>, a bare block for the read expression, a block with the value inputs
  \<open>min\<close> and \<open>max\<close>, a block with the mode dropdown, and a block with the value
  input \<open>value\<close>; the menus are those of lines 5, 7 and 48.
\<close>

definition encoder_block :: block where
  "encoder_block =
     appendField (FieldDropdown pin_menu) (Some ''dt'')
       (appendField (FieldDropdown pin_menu) (Some ''clk'')
          (appendDummyInput (empty_block ''initialise_rotary_encoder'')))"

definition read_block :: block where
  "read_block = empty_block ''get_value''"

definition range_block :: block where
  "range_block =
     appendValueInput ''max'' (appendValueInput ''min'' (empty_block ''set_range_value''))"

definition mode_block :: block where
  "mode_block =
     appendField (FieldDropdown mode_menu) (Some ''mode'')
       (appendDummyInput (empty_block ''rotary_mode''))"

definition value_block :: block where
  "value_block = appendValueInput ''value'' (empty_block ''set_current_value'')"


subsection \<open>Reading emitted text\<close>

text \<open>
  Splitting a text at a terminator: every piece that ends with the terminator is one
  element (without the terminator), and text left after the last terminator is a final
  element. \<open>lines_of\<close> reads generated code line by line; \<open>reserved_words\<close> reads the
  comma-terminated words of \<^verbatim>\<open>RESERVED_WORDS_\<close>.
\<close>

primrec split_terminated :: "char \<Rightarrow> string \<Rightarrow> string list" where
  "split_terminated t [] = []"
| "split_terminated t (c # cs) =
     (if c = t then [] # split_terminated t cs
      else (case split_terminated t cs of [] \<Rightarrow> [[c]] | w # ws \<Rightarrow> (c # w) # ws))"


definition reserved_words :: "blockly \<Rightarrow> string list" where
  "reserved_words Blockly = split_terminated (CHR '','') (RESERVED_WORDS Blockly)"

definition fragment_code :: "fragment \<Rightarrow> string" where
  "fragment_code frag = (case frag of Statement code \<Rightarrow> code | Expression code ord \<Rightarrow> code)"

definition fragment_order :: "fragment \<Rightarrow> rat option" where
  "fragment_order frag = (case frag of Statement code \<Rightarrow> None | Expression code ord \<Rightarrow> Some ord)"

text \<open>
  Plugging the block that emitted \<open>frag\<close> into the value input \<open>n\<close>; the editor
  connects only value blocks there.
\<close>

definition plug :: "string \<Rightarrow> fragment \<Rightarrow> block \<Rightarrow> block" where
  "plug n frag this =
     (case frag of Statement code \<Rightarrow> this | Expression code ord \<Rightarrow> connect n (code, ord) this)"

text \<open>
  The name an emitted fragment starts with: the text before the first blank or dot (the
  variable bound by an assignment, or the object a method is called on).
\<close>

definition leading_name :: "string \<Rightarrow> string" where
  "leading_name code = takeWhile (\<lambda>c. c \<noteq> CHR '' '' \<and> c \<noteq> CHR ''.'') code"



text \<open>Decimal numerals, to spell out the pin menu by pin number.\<close>

fun decimal :: "nat \<Rightarrow> string" where
  "decimal n =
     (if n < 10 then [char_of (48 + n)] else decimal (n div 10) @ [char_of (48 + n mod 10)])"

definition pin_option :: "nat \<Rightarrow> string \<times> string" where
  "pin_option n = (''P'' @ decimal n, ''pin'' @ decimal n @ ''.pin'')"


section \<open>Properties\<close>

subsection \<open>Unfolding the host's operations and the sample blocks\<close>

lemmas schema_defs =
  appendDummyInput_def appendValueInput_def setCheck_def appendField_def new_input_def
  empty_block_def FieldDropdown_def pin_menu_def mode_menu_def encoder_block_def
  read_block_def range_block_def mode_block_def value_block_def

lemmas init_defs =
  initialise_rotary_encoder_init_def get_value_init_def set_range_value_init_def
  rotary_mode_init_def set_current_value_init_def setColour_def colour_token_def

lemmas access_defs =
  getField_def getFieldValue_def getValue_def setFieldValue_def setValue_def
  connect_def plug_def getInputTarget_def

lemmas emitter_defs =
  initialise_rotary_encoder_def get_value_def set_range_value_def rotary_mode_def
  set_current_value_def

lemmas Blockly_defs = Blockly_Python_def Blockly_valueToCode_def


subsection \<open>The four statement emitters and the expression emitter\<close>

text \<open>
  C1. Whatever encoded values the \<open>clk\<close> and \<open>dt\<close> choice fields of the block hold, the
  InitEncoder emitter returns one statement: the assignment of
  \<^verbatim>\<open>RotaryIRQ(pin_num_clk=<clk>, pin_num_dt=<dt>, min_val=0, max_val=10, reverse=True,
  range_mode=RotaryIRQ.RANGE_UNBOUNDED, pull_up=False)\<close> to \<^verbatim>\<open>rotary_encoder\<close>, with the
  two values copied in unchanged, followed by a line break.
\<close>

theorem initialise_rotary_encoder_statement:
  assumes "getFieldValue block ''clk'' = Some clk"
    and "getFieldValue block ''dt'' = Some dt"
  shows "fst (initialise_rotary_encoder Python block) =
    Statement (''rotary_encoder = RotaryIRQ(pin_num_clk='' @ clk @ '', pin_num_dt='' @ dt
      @ '', min_val=0, max_val=10, reverse=True, range_mode=RotaryIRQ.RANGE_UNBOUNDED, pull_up=False)''
      @ [newline])"
  using assms by (simp add: initialise_rotary_encoder_def js_string_def)

text \<open>
  The run of the spec's scenario A: a block with the two pin dropdowns (clk shows its
  first option, \<^verbatim>\<open>pin0.pin\<close>) on which P1 is picked for dt.
\<close>

theorem initialise_rotary_encoder_statement_witness:
  "getFieldValue
     (setFieldValue ''pin1.pin'' ''dt''
        encoder_block) ''clk''
     = Some ''pin0.pin''
   \<and> getFieldValue
     (setFieldValue ''pin1.pin'' ''dt''
        encoder_block) ''dt''
     = Some ''pin1.pin''
   \<and> fst (initialise_rotary_encoder Blockly_Python
       (setFieldValue ''pin1.pin'' ''dt''
          encoder_block))
     = Statement (''rotary_encoder = RotaryIRQ(pin_num_clk=pin0.pin, pin_num_dt=pin1.pin, min_val=0, max_val=10, reverse=True, range_mode=RotaryIRQ.RANGE_UNBOUNDED, pull_up=False)''
         @ [newline])"
proof -
  let ?b = "setFieldValue ''pin1.pin'' ''dt''
              encoder_block"
  have clk: "getFieldValue ?b ''clk'' = Some ''pin0.pin''"
    by (simp add: schema_defs access_defs)
  have dt: "getFieldValue ?b ''dt'' = Some ''pin1.pin''"
    by (simp add: schema_defs access_defs)
  from initialise_rotary_encoder_statement [OF clk dt, of Blockly_Python] clk dt
  show ?thesis by simp
qed

text \<open>
  C2, as amended. For every generator and block the ReadValue emitter returns the
  expression \<^verbatim>\<open>rotary_encoder.value()\<close> tagged with the generator's \<^verbatim>\<open>ORDER_NONE\<close>
  and leaves the generator as it was. \<^verbatim>\<open>ORDER_NONE\<close> is the weakest order, not the
  atomic one: where the fragment is plugged into a value input, Blockly's
  \<^verbatim>\<open>valueToCode\<close> wraps it in parentheses for every requested outer order below 99.
\<close>

theorem get_value_expression:
  "fst (get_value Python block) = Expression ''rotary_encoder.value()'' (ORDER_NONE Python)
   \<and> snd (get_value Python block) = Python
   \<and> (getInputTarget parent n = Some (''rotary_encoder.value()'', ORDER_NONE Blockly_Python)
        \<and> \<lfloor>outerOrder\<rfloor> < 99
      \<longrightarrow> valueToCode Blockly_Python parent n outerOrder = ''(rotary_encoder.value())'')"
  by (auto simp add: get_value_def Blockly_defs Let_def floor_eq_iff)

theorem get_value_expression_witness:
  "getInputTarget
     (plug ''value''
        (fst (get_value Blockly_Python read_block))
        value_block) ''value''
     = Some (''rotary_encoder.value()'', ORDER_NONE Blockly_Python)
   \<and> \<lfloor>0 :: rat\<rfloor> < 99
   \<and> valueToCode Blockly_Python
       (plug ''value''
          (fst (get_value Blockly_Python read_block))
          value_block) ''value'' 0
     = ''(rotary_encoder.value())''"
proof -
  let ?p = "plug ''value''
              (fst (get_value Blockly_Python read_block))
              value_block"
  have target: "getInputTarget ?p ''value'' = Some (''rotary_encoder.value()'', ORDER_NONE Blockly_Python)"
    by (simp add: schema_defs access_defs get_value_def Blockly_Python_def)
  have outer: "\<lfloor>0 :: rat\<rfloor> < 99"
    by simp
  from get_value_expression [of Blockly_Python "read_block" "?p" "''value''" 0]
    target outer
  show ?thesis by blast
qed

text \<open>
  The claim as it was stated fails on Blockly's generator: the tag that the emitter
  returns for a ReadValue block is not \<^verbatim>\<open>ORDER_ATOMIC\<close>, and plugged into the value input of a SetValue
  block, which requests \<^verbatim>\<open>ORDER_ATOMIC\<close>, the fragment comes back in parentheses.
\<close>

theorem get_value_atomic_counterexample:
  "fragment_order (fst (get_value Blockly_Python read_block))
     \<noteq> Some (ORDER_ATOMIC Blockly_Python)
   \<and> valueToCode Blockly_Python
       (plug ''value''
          (fst (get_value Blockly_Python read_block))
          value_block)
       ''value'' (ORDER_ATOMIC Blockly_Python)
     \<noteq> fragment_code (fst (get_value Blockly_Python read_block))
   \<and> fst (set_current_value Blockly_Python
       (plug ''value''
          (fst (get_value Blockly_Python read_block))
          value_block))
     = Statement (''rotary_encoder.set(value=(rotary_encoder.value()))'' @ [newline])"
  by (simp add: schema_defs access_defs emitter_defs Blockly_defs fragment_order_def
      fragment_code_def)

text \<open>
  C3. Whatever strings the generator resolves the \<open>min\<close> and \<open>max\<close> inputs to, the
  SetRange emitter returns the one statement
  \<^verbatim>\<open>rotary_encoder.set(min_val=<min>, max_val=<max>, range_mode=RotaryIRQ.RANGE_WRAP)\<close>
  followed by a line break. Nothing else of the block or of the generator enters the
  text: the range mode is always the wrap constant.
\<close>

theorem set_range_value_statement:
  assumes "valueToCode Python block ''min'' (ORDER_ATOMIC Python) = value_min"
    and "valueToCode Python block ''max'' (ORDER_ATOMIC Python) = value_max"
  shows "fst (set_range_value Python block) =
    Statement (''rotary_encoder.set(min_val='' @ value_min @ '', max_val='' @ value_max
      @ '', range_mode=RotaryIRQ.RANGE_WRAP)'' @ [newline])"
  using assms by (simp add: set_range_value_def)

text \<open>Scenario C: number blocks \<^verbatim>\<open>0\<close> and \<^verbatim>\<open>100\<close> (atomic order) plugged into min and max.\<close>

theorem set_range_value_statement_witness:
  "valueToCode Blockly_Python
     (connect ''max'' (''100'', 0)
        (connect ''min'' (''0'', 0) range_block))
     ''min'' (ORDER_ATOMIC Blockly_Python) = ''0''
   \<and> valueToCode Blockly_Python
     (connect ''max'' (''100'', 0)
        (connect ''min'' (''0'', 0) range_block))
     ''max'' (ORDER_ATOMIC Blockly_Python) = ''100''
   \<and> fst (set_range_value Blockly_Python
       (connect ''max'' (''100'', 0)
          (connect ''min'' (''0'', 0) range_block)))
     = Statement (''rotary_encoder.set(min_val=0, max_val=100, range_mode=RotaryIRQ.RANGE_WRAP)''
         @ [newline])"
proof -
  let ?b = "connect ''max'' (''100'', 0)
              (connect ''min'' (''0'', 0) range_block)"
  have lo: "valueToCode Blockly_Python ?b ''min'' (ORDER_ATOMIC Blockly_Python) = ''0''"
    by (simp add: schema_defs access_defs Blockly_defs)
  have hi: "valueToCode Blockly_Python ?b ''max'' (ORDER_ATOMIC Blockly_Python) = ''100''"
    by (simp add: schema_defs access_defs Blockly_defs)
  from set_range_value_statement [OF lo hi] lo hi
  show ?thesis by simp
qed

text \<open>
  C4. Whatever encoded value the \<open>mode\<close> choice field holds, the SetMode emitter returns
  the statement \<^verbatim>\<open>rotary_encoder.set(range_mode=<mode>)\<close> and a line break: a call of
  \<^verbatim>\<open>set\<close> on the handle with \<^verbatim>\<open>range_mode\<close> as its only argument, the encoded value
  standing there character for character.
\<close>

theorem rotary_mode_statement:
  assumes "getFieldValue block ''mode'' = Some mode"
  shows "fst (rotary_mode Python block) =
    Statement (''rotary_encoder.set(range_mode='' @ mode @ '')'' @ [newline])"
  using assms by (simp add: rotary_mode_def js_string_def)

text \<open>Scenario D: the second option, the wrap mode, is picked on a block with the mode dropdown.\<close>

theorem rotary_mode_statement_witness:
  "getFieldValue
     (setFieldValue ''RotaryIRQ.RANGE_WRAP'' ''mode'' mode_block)
     ''mode'' = Some ''RotaryIRQ.RANGE_WRAP''
   \<and> fst (rotary_mode Blockly_Python
       (setFieldValue ''RotaryIRQ.RANGE_WRAP'' ''mode'' mode_block))
     = Statement (''rotary_encoder.set(range_mode=RotaryIRQ.RANGE_WRAP)'' @ [newline])"
proof -
  let ?b = "setFieldValue ''RotaryIRQ.RANGE_WRAP'' ''mode''
              mode_block"
  have sel: "getFieldValue ?b ''mode'' = Some ''RotaryIRQ.RANGE_WRAP''"
    by (simp add: schema_defs access_defs)
  from rotary_mode_statement [OF sel, of Blockly_Python] sel
  show ?thesis by simp
qed



subsection \<open>The import entry of the preamble\<close>












subsection \<open>Loading the file: the reserved word and the schemas\<close>

lemma split_terminated_piece:
  "t \<notin> set w \<Longrightarrow> split_terminated t (w @ t # rest) = w # split_terminated t rest"
  by (induction w) auto

lemma split_terminated_Nil_iff:
  "split_terminated t s = [] \<longleftrightarrow> s = []"
  by (cases s) (auto split: list.splits)

lemma split_terminated_snoc_word:
  assumes "t \<notin> set w" and "s = [] \<or> last s = t"
  shows "split_terminated t (s @ w @ [t]) = split_terminated t s @ [w]"
  using assms(2)
proof (induction s)
  case Nil
  from split_terminated_piece [OF assms(1), of "[]"] show ?case by simp
next
  case (Cons c cs)
  show ?case
  proof (cases "cs = []")
    case True
    with Cons.prems have "c = t" by simp
    with True split_terminated_piece [OF assms(1), of "[]"] show ?thesis by simp
  next
    case False
    with Cons.prems have "last cs = t" by simp
    with Cons.IH have ih: "split_terminated t (cs @ w @ [t]) = split_terminated t cs @ [w]"
      by simp
    from False obtain x xs where "split_terminated t cs = x # xs"
      by (cases "split_terminated t cs") (simp_all add: split_terminated_Nil_iff)
    with ih show ?thesis by simp
  qed
qed

text \<open>
  The call of line 70 by itself adds the one word \<^verbatim>\<open>rotary\<close> to the reserved words,
  whatever words (each followed by its comma) were reserved before. The name that every
  emitted fragment starts with is \<^verbatim>\<open>rotary_encoder\<close>.
\<close>

lemma line_70_adds_rotary:
  assumes "RESERVED_WORDS Blockly = [] \<or> last (RESERVED_WORDS Blockly) = CHR '',''"
  shows "reserved_words (addReservedWords ''rotary'' Blockly) = reserved_words Blockly @ [''rotary'']"
proof -
  have "CHR '','' \<notin> set ''rotary''"
    by simp
  from split_terminated_snoc_word [OF this assms] show ?thesis
    by (simp add: reserved_words_def addReservedWords_def)
qed

lemma emitted_handle_name:
  "leading_name (fragment_code (fst (initialise_rotary_encoder G b))) = ''rotary_encoder''"
  "leading_name (fragment_code (fst (get_value G b))) = ''rotary_encoder''"
  "leading_name (fragment_code (fst (set_range_value G b))) = ''rotary_encoder''"
  "leading_name (fragment_code (fst (rotary_mode G b))) = ''rotary_encoder''"
  "leading_name (fragment_code (fst (set_current_value G b))) = ''rotary_encoder''"
  by (simp_all add: emitter_defs fragment_code_def leading_name_def)

text \<open>
  C6, at the failing input. The claim has the load reserve the handle name. Loading the
  file as it stands, into whatever state the host is in, is refused with a syntax error
  (the colour token of the schemas): no statement of the file runs, line 70 among them,
  and no word is reserved.
\<close>

theorem definition_js_refused:
  "definition_js Blockly = Inl SyntaxError"
  by (simp add: definition_js_def is_expression_def colour_token_def)

text \<open>
  C8, at the failing input. The claim has four kinds accept a previous and a next
  statement and ReadValue produce a value. Each of the five \<^verbatim>\<open>init\<close> functions as
  written, run on any block, stops with the syntax error at its colour call and returns
  no block, so no block of any kind comes to declare a connection or an output.
\<close>

theorem schema_inits_refused:
  "initialise_rotary_encoder_init this = Inl SyntaxError
   \<and> get_value_init this = Inl SyntaxError
   \<and> set_range_value_init this = Inl SyntaxError
   \<and> rotary_mode_init this = Inl SyntaxError
   \<and> set_current_value_init this = Inl SyntaxError"
  by (simp add: init_defs)

text \<open>
  C9, at the failing input. The menu of line 48 is as the claim says: its first option,
  labelled \<^verbatim>\<open>kh\<close>..\<^verbatim>\<open>ng gi\<close>..\<^verbatim>\<open>i h\<close>..\<^verbatim>\<open>n\<close>, has an encoded value that begins with a
  blank, and the values of the other two options do not. But the \<^verbatim>\<open>init\<close> that is to
  put the dropdown on a new SetMode block returns no block: there is no option to select.
\<close>

theorem rotary_mode_dropdown_refused:
  "rotary_mode_init (empty_block ''rotary_mode'') = Inl SyntaxError
   \<and> mode_menu =
       [(''kh'' @ [CHR 0xC3, CHR 0xB4] @ ''ng gi'' @ [CHR 0xE1, CHR 0xBB, CHR 0x9B] @ ''i h''
           @ [CHR 0xE1, CHR 0xBA, CHR 0xA1] @ ''n'',
         CHR '' '' # ''RotaryIRQ.RANGE_UNBOUNDED''),
        (''reset khi quay t'' @ [CHR 0xE1, CHR 0xBB, CHR 0x9B] @ ''i max'',
         CHR ''R'' # ''otaryIRQ.RANGE_WRAP''),
        (''d'' @ [CHR 0xE1, CHR 0xBB, CHR 0xAB] @ ''ng t'' @ [CHR 0xC4, CHR 0x83]
           @ ''ng khi quay t'' @ [CHR 0xE1, CHR 0xBB, CHR 0x9B] @ ''i max'',
         CHR ''R'' # ''otaryIRQ.RANGE_BOUNDED'')]"
  by (simp add: init_defs mode_menu_def)

lemma pin_menu_by_number:
  "map pin_option ([0..<5] @ [6..<17]) = pin_menu"
  by code_simp

text \<open>
  C10, at the failing input. The menu that lines 5 and 7 both write is as the claim
  says: 16 options, for the pin numbers 0 to 4 and 6 to 16 in this order (no 5) the label
  \<^verbatim>\<open>P<n>\<close> with the encoded value \<^verbatim>\<open>pin<n>.pin\<close>, the labels distinct. But the
  \<^verbatim>\<open>init\<close> that is to put the two dropdowns on a new InitEncoder block returns no block:
  no field comes to offer the menu.
\<close>

theorem pin_dropdowns_refused:
  "initialise_rotary_encoder_init (empty_block ''initialise_rotary_encoder'') = Inl SyntaxError
   \<and> pin_menu = map pin_option ([0..<5] @ [6..<17])
   \<and> length pin_menu = 16
   \<and> distinct (map fst pin_menu)
   \<and> 5 \<notin> set ([0..<5] @ [6..<17])"
proof -
  have stop: "initialise_rotary_encoder_init (empty_block ''initialise_rotary_encoder'')
      = Inl SyntaxError"
    by (simp add: init_defs)
  have len: "length pin_menu = 16"
    by (simp add: pin_menu_def)
  have labels: "distinct (map fst pin_menu)"
    by (simp add: pin_menu_def)
  have five: "5 \<notin> set ([0..<5] @ [6..<17 :: nat])"
    by simp
  from stop len labels five pin_menu_by_number show ?thesis
    by simp
qed


subsection \<open>Chaining statements\<close>









end
